theory Spec2Isabelle
  imports Complex_Main
begin

section \<open>Common notions\<close>

text \<open>
  The models below follow \<^verbatim>\<open>src/server/models/Course.ts\<close>,
  \<^verbatim>\<open>src/server/models/ProblemSet.ts\<close> and the route registration in
  \<^verbatim>\<open>src/unnamed/part_000\<close>.

  Conventions. A field that may be \<^verbatim>\<open>undefined\<close> on a document is an
  \<open>option\<close>. A \<^verbatim>\<open>Date\<close> is the number of milliseconds since the epoch. Counts and
  identifiers of JavaScript type \<^verbatim>\<open>number\<close> are \<open>int\<close>; ratings, rates and hours are
  \<open>real\<close> (the values \<^verbatim>\<open>NaN\<close> and the infinities are not values of the model; the
  rounding of doubles above \<open>2^53\<close> is not modelled). Fields of several records share
  a name in the source (\<^verbatim>\<open>id\<close>, \<^verbatim>\<open>title\<close>, \<^verbatim>\<open>difficulty\<close>); the records
  prefix them with \<open>c_\<close> (course), \<open>pi_\<close> (problem instance) and \<open>ps_\<close> (problem set).
\<close>

type_synonym date = nat

text \<open>
  White space, as \<^verbatim>\<open>String.prototype.trim\<close> and \<^verbatim>\<open>parseInt\<close> skip it, is the ASCII
  white space: tab, line feed, vertical tab, form feed, carriage return and space.
\<close>

definition isWhiteSpace :: "char \<Rightarrow> bool" where
  "isWhiteSpace c = ((of_char c :: nat) \<in> {9, 10, 11, 12, 13, 32})"


text \<open>
  The rules a schema declares for a path, as the validation run by \<^verbatim>\<open>save\<close>
  applies them: \<^verbatim>\<open>required\<close> refuses a missing value (and, for a string, the empty
  string); \<^verbatim>\<open>enum\<close>, \<^verbatim>\<open>min\<close> and \<^verbatim>\<open>max\<close> accept a missing value and constrain a
  present one. A failed rule is reported as the path and the kind of rule.
\<close>

datatype rule = Required | Enum | Min | Max

datatype failure =
    Fails string rule              \<comment> \<open>the path and the rule it fails\<close>
  | InElement string nat failure   \<comment> \<open>a failure inside element \<open>i\<close> of an array of sub-documents\<close>

datatype error =
    Error string                \<comment> \<open>\<^verbatim>\<open>new Error(message)\<close> thrown by the method itself\<close>
  | ValidationError "failure list"  \<comment> \<open>\<^verbatim>\<open>save\<close> rejected by the schema's rules\<close>
  | StorageError string         \<comment> \<open>the write to the database failed\<close>

definition required :: "string \<Rightarrow> 'a option \<Rightarrow> failure list" where
  "required path v = (case v of None \<Rightarrow> [Fails path Required] | Some _ \<Rightarrow> [])"

definition requiredString :: "string \<Rightarrow> string option \<Rightarrow> failure list" where
  "requiredString path v =
     (case v of None \<Rightarrow> [Fails path Required]
      | Some s \<Rightarrow> if s = [] then [Fails path Required] else [])"

definition enum :: "string \<Rightarrow> string list \<Rightarrow> string option \<Rightarrow> failure list" where
  "enum path vals v =
     (case v of None \<Rightarrow> []
      | Some s \<Rightarrow> if s \<in> set vals then [] else [Fails path Enum])"

definition minRule :: "string \<Rightarrow> 'a::linorder \<Rightarrow> 'a option \<Rightarrow> failure list" where
  "minRule path lo v =
     (case v of None \<Rightarrow> [] | Some x \<Rightarrow> if x < lo then [Fails path Min] else [])"

definition maxRule :: "string \<Rightarrow> 'a::linorder \<Rightarrow> 'a option \<Rightarrow> failure list" where
  "maxRule path hi v =
     (case v of None \<Rightarrow> [] | Some x \<Rightarrow> if hi < x then [Fails path Max] else [])"

text \<open>
  What one call of a document method leaves behind: the document in memory (the methods
  mutate \<^verbatim>\<open>this\<close> before they save, so it may differ from the argument also when the
  call throws), the snapshot written to the database if one was written, and the error
  thrown if one was thrown.
\<close>

record 'd outcome =
  doc :: 'd
  persisted :: "'d option"
  thrown :: "error option"

text \<open>
  The surroundings of a call: the clock read by \<^verbatim>\<open>new Date()\<close>, and whether the
  database refuses the write (\<open>Some message\<close>) once validation has passed.
\<close>

record env =
  now :: date
  writeFails :: "string option"

text \<open>
  \<^verbatim>\<open>await this.save()\<close>: validation first; a document that fails it is rejected and
  nothing is written; otherwise the document is written, unless the database fails. The
  bookkeeping of \<^verbatim>\<open>timestamps: true\<close> (\<^verbatim>\<open>createdAt\<close>, \<^verbatim>\<open>updatedAt\<close>) is done by the
  library and is left out.
\<close>

definition save :: "env \<Rightarrow> ('d \<Rightarrow> failure list) \<Rightarrow> 'd \<Rightarrow> 'd outcome" where
  "save e validate d =
     (case validate d of
        [] \<Rightarrow> (case writeFails e of
                 None \<Rightarrow> \<lparr>doc = d, persisted = Some d, thrown = None\<rparr>
               | Some m \<Rightarrow> \<lparr>doc = d, persisted = None, thrown = Some (StorageError m)\<rparr>)
      | f # fs \<Rightarrow> \<lparr>doc = d, persisted = None, thrown = Some (ValidationError (f # fs))\<rparr>)"

section \<open>Course\<close>

record course =
  c_id :: "int option"
  c_title :: "string option"
  c_description :: "string option"
  c_category :: "string option"
  c_difficulty :: "string option"
  c_estimatedHours :: "real option"
  c_prerequisites :: "string list"
  c_learningObjectives :: "string list"
  c_problems :: "int list"
  c_modules :: "int list"
  c_enrolledUsers :: "string list"
  c_isPublic :: bool
  c_enableMarkComplete :: bool
  c_createdBy :: "string option"
  c_tags :: "string list"
  c_allowDirectEnrollment :: bool
  c_rating :: "real option"
  c_enrollmentCount :: "int option"
  c_completionRate :: "real option"
  c_createdAt :: date
  c_updatedAt :: date

text \<open>\<^verbatim>\<open>courseSchema\<close>: the rules of each path, in the order of the declaration.\<close>

definition courseDifficulties :: "string list" where
  "courseDifficulties = [''beginner'', ''intermediate'', ''advanced'']"

definition validateCourse :: "course \<Rightarrow> failure list" where
  "validateCourse c =
     required ''id'' (c_id c)
     @ requiredString ''title'' (c_title c)
     @ enum ''difficulty'' courseDifficulties (c_difficulty c)
     @ minRule ''estimatedHours'' 0 (c_estimatedHours c)
     @ minRule ''rating'' 0 (c_rating c) @ maxRule ''rating'' 5 (c_rating c)
     @ minRule ''enrollmentCount'' 0 (c_enrollmentCount c)
     @ minRule ''completionRate'' 0 (c_completionRate c)
     @ maxRule ''completionRate'' 100 (c_completionRate c)"

text \<open>
  \<^verbatim>\<open>this.enrollmentCount || 0\<close>: a missing count and the count \<open>0\<close> both give \<open>0\<close>.
\<close>

definition countOrZero :: "int option \<Rightarrow> int" where
  "countOrZero v = (case v of None \<Rightarrow> 0 | Some n \<Rightarrow> if n = 0 then 0 else n)"

definition incrementEnrollment :: "env \<Rightarrow> course \<Rightarrow> course outcome" where
  "incrementEnrollment e c =
     save e validateCourse (c\<lparr>c_enrollmentCount := Some (countOrZero (c_enrollmentCount c) + 1)\<rparr>)"

definition decrementEnrollment :: "env \<Rightarrow> course \<Rightarrow> course outcome" where
  "decrementEnrollment e c =
     save e validateCourse
       (c\<lparr>c_enrollmentCount := Some (max 0 (countOrZero (c_enrollmentCount c) - 1))\<rparr>)"

section \<open>Problem sets\<close>

text \<open>A value of type \<^verbatim>\<open>any\<close> or \<^verbatim>\<open>Mixed\<close>: what JSON can carry, and dates.\<close>

datatype json =
    JNull
  | JBool bool
  | JNum int
  | JStr string
  | JDate date
  | JArr "json list"
  | JObj "(string \<times> json) list"

text \<open>
  A problem instance as a sub-document: the paths that \<^verbatim>\<open>problemInstanceSchema\<close>
  declares, and \<^verbatim>\<open>_id\<close>. The interface \<^verbatim>\<open>IProblemInstance\<close> also names
  \<^verbatim>\<open>id\<close>, \<^verbatim>\<open>selectedProblemId\<close> and \<^verbatim>\<open>originalProblemId\<close>; the schema declares
  no such path, so a sub-document does not store them and they are no fields of the
  record. An \<^verbatim>\<open>ObjectId\<close> is kept as the string that \<^verbatim>\<open>toString()\<close> gives.
\<close>

type_synonym objectId = string

record problemInstance =
  pi__id :: "objectId option"
  pi_problemId :: "int option"
  pi_title :: "string option"
  pi_description :: "string option"
  pi_difficulty :: "string option"
  pi_customTestCases :: "json list"
  pi_customExamples :: "json list"
  pi_customStarterCode :: "json option"
  pi_timeLimit :: "int option"
  pi_memoryLimit :: "int option"
  pi_hints :: "string list"
  pi_constraints :: "string option"
  pi_inputFormat :: "string option"
  pi_outputFormat :: "string option"
  pi_notes :: "string option"
  pi_order :: "int option"
  pi_isCustomized :: bool
  pi_lastModified :: date
  pi_modifiedBy :: "string option"


record problemSet =
  ps_id :: "string option"
  ps_title :: "string option"
  ps_description :: "string option"
  ps_difficulty :: "string option"
  ps_category :: "string option"
  ps_tags :: "string list"
  ps_problemIds :: "string list"
  ps_problemInstances :: "problemInstance list"
  ps_isPublic :: bool
  ps_estimatedTime :: "int option"
  ps_totalProblems :: int
  ps_createdBy :: "string option"
  ps_participants :: "string list"
  ps_allowDirectEnrollment :: bool
  ps_createdAt :: date
  ps_updatedAt :: date

text \<open>\<^verbatim>\<open>problemInstanceSchema\<close> and \<^verbatim>\<open>problemSetSchema\<close>.\<close>

definition instanceDifficulties :: "string list" where
  "instanceDifficulties = [''easy'', ''medium'', ''hard'']"

definition validateInstance :: "problemInstance \<Rightarrow> failure list" where
  "validateInstance p =
     required ''problemId'' (pi_problemId p)
     @ enum ''difficulty'' instanceDifficulties (pi_difficulty p)
     @ required ''order'' (pi_order p)"

text \<open>The elements of an array of sub-documents are validated one by one.\<close>

fun validateElements :: "string \<Rightarrow> nat \<Rightarrow> problemInstance list \<Rightarrow> failure list" where
  "validateElements path i [] = []"
| "validateElements path i (p # ps) =
     map (InElement path i) (validateInstance p) @ validateElements path (Suc i) ps"

definition validateProblemSet :: "problemSet \<Rightarrow> failure list" where
  "validateProblemSet d =
     requiredString ''id'' (ps_id d)
     @ requiredString ''title'' (ps_title d)
     @ requiredString ''difficulty'' (ps_difficulty d)
     @ validateElements ''problemInstances'' 0 (ps_problemInstances d)
     @ requiredString ''createdBy'' (ps_createdBy d)"

text \<open>
  \<^verbatim>\<open>addProblem\<close>: push, recount, save. (The library gives a pushed instance an
  \<^verbatim>\<open>_id\<close> when it has none; \<open>inst\<close> stands for the instance as it is stored in
  the array.)
\<close>

definition addProblem :: "env \<Rightarrow> problemSet \<Rightarrow> problemInstance \<Rightarrow> problemSet outcome" where
  "addProblem e d inst =
     (let d1 = d\<lparr>ps_problemInstances := ps_problemInstances d @ [inst]\<rparr>;
          d2 = d1\<lparr>ps_totalProblems := int (length (ps_problemInstances d1))\<rparr>
      in save e validateProblemSet d2)"

definition removeProblem :: "env \<Rightarrow> problemSet \<Rightarrow> int \<Rightarrow> problemSet outcome" where
  "removeProblem e d problemId =
     (let d1 = d\<lparr>ps_problemInstances :=
                  filter (\<lambda>p. pi_problemId p \<noteq> Some problemId) (ps_problemInstances d)\<rparr>;
          d2 = d1\<lparr>ps_totalProblems := int (length (ps_problemInstances d1))\<rparr>
      in save e validateProblemSet d2)"




text \<open>
  \<^verbatim>\<open>Array.prototype.find\<close> returns the first element that satisfies the predicate. The
  element is an object that the caller then mutates, so the model returns its position.
\<close>

fun findIndex :: "('a \<Rightarrow> bool) \<Rightarrow> 'a list \<Rightarrow> nat option" where
  "findIndex P [] = None"
| "findIndex P (x # xs) = (if P x then Some 0 else map_option Suc (findIndex P xs))"


definition removeProblemInstance :: "env \<Rightarrow> problemSet \<Rightarrow> string \<Rightarrow> problemSet outcome" where
  "removeProblemInstance e d ident =
     (let idStr = ident;
          d1 = d\<lparr>ps_problemInstances :=
                  filter (\<lambda>p. pi__id p \<noteq> Some idStr) (ps_problemInstances d)\<rparr>;
          d2 = d1\<lparr>ps_totalProblems := int (length (ps_problemInstances d1))\<rparr>
      in save e validateProblemSet d2)"

text \<open>
  \<^verbatim>\<open>reorderProblems\<close>. The callback of \<^verbatim>\<open>newOrder.map\<close> mutates the instance it
  finds and returns that same object, so an instance found twice is one object that
  appears twice in the result. The model names each instance by its position in
  \<^verbatim>\<open>this.problemInstances\<close> as it was at the call: \<open>objs\<close> holds the current
  contents of the objects, and the callback returns a position (\<open>None\<close> for
  \<^verbatim>\<open>null\<close>). \<open>index\<close> is the index of the callback's call.
\<close>

fun reorderMap ::
  "problemInstance list \<Rightarrow> int list \<Rightarrow> nat \<Rightarrow> problemInstance list \<times> nat option list" where
  "reorderMap objs [] index = (objs, [])"
| "reorderMap objs (problemId # rest) index =
     (case findIndex (\<lambda>p. pi_problemId p = Some problemId) objs of
        Some r \<Rightarrow>
          (let objs' = objs[r := (objs ! r)\<lparr>pi_order := Some (int index + 1)\<rparr>];
               (objs'', refs) = reorderMap objs' rest (Suc index)
           in (objs'', Some r # refs))
      | None \<Rightarrow>
          (let (objs'', refs) = reorderMap objs rest (Suc index)
           in (objs'', None # refs)))"

text \<open>\<^verbatim>\<open>.filter(Boolean)\<close> drops the \<^verbatim>\<open>null\<close>s.\<close>

fun filterBoolean :: "'a option list \<Rightarrow> 'a list" where
  "filterBoolean [] = []"
| "filterBoolean (None # rs) = filterBoolean rs"
| "filterBoolean (Some r # rs) = r # filterBoolean rs"

definition reorderProblems :: "env \<Rightarrow> problemSet \<Rightarrow> int list \<Rightarrow> problemSet outcome" where
  "reorderProblems e d newOrder =
     (let (objs, refs) = reorderMap (ps_problemInstances d) newOrder 0;
          reorderedInstances = map (\<lambda>r. objs ! r) (filterBoolean refs)
      in save e validateProblemSet (d\<lparr>ps_problemInstances := reorderedInstances\<rparr>))"

section \<open>Routes\<close>

subsection \<open>Requests and responses\<close>

datatype httpMethod = GET | POST | PUT | PATCH | DELETE | OtherMethod string

record user =
  user_id :: "string option"
  user_role :: "string option"

record request =
  req_method :: httpMethod
  req_path :: string                      \<comment> \<open>the path of the URL, without the query\<close>
  req_user :: "user option"               \<comment> \<open>\<^verbatim>\<open>req.user\<close>, set by the authentication middleware\<close>
  req_body :: "(string \<times> json) list"     \<comment> \<open>\<^verbatim>\<open>req.body\<close>, a parsed JSON object\<close>

text \<open>A stored problem set as the enrollment route reads it (\<^verbatim>\<open>ps: any\<close>).\<close>

datatype participant = PString string | PObjectId objectId

record storedSet =
  s__id :: objectId
  s_id :: "string option"
  s_title :: "string option"
  s_tags :: "string list option"
  s_problems :: "json list option"
  s_problemIds :: "string list option"
  s_problemInstances :: "problemInstance list option"
  s_participants :: "participant list"
  s_createdAt :: date

record enrollment =
  e_id :: int
  e_userId :: string
  e_problemSetId :: string   \<comment> \<open>as \<^verbatim>\<open>String(e.problemSetId)\<close> renders it\<close>

text \<open>The record that the enrollment route returns for one problem set.\<close>

record enrolledSet =
  spread :: storedSet          \<comment> \<open>\<^verbatim>\<open>...ps\<close>\<close>
  problems :: "json list"
  tags :: "string list"
  totalProblems :: nat
  isEnrolled :: bool

datatype payload =
    Message string                 \<comment> \<open>\<^verbatim>\<open>{ message: ... }\<close>\<close>
  | Success bool                   \<comment> \<open>\<^verbatim>\<open>{ success: ... }\<close>\<close>
  | Sets "enrolledSet list"
  | Document json

datatype body = Json payload | Html string

record response =
  status :: nat
  body :: body

text \<open>\<^verbatim>\<open>res.status(n).json(x)\<close>, and \<^verbatim>\<open>res.json(x)\<close> with the default status.\<close>

definition statusJson :: "nat \<Rightarrow> payload \<Rightarrow> response" where
  "statusJson n x = \<lparr>status = n, body = Json x\<rparr>"

definition json :: "payload \<Rightarrow> response" where
  "json x = statusJson 200 x"

text \<open>
  A value caught by a handler's \<^verbatim>\<open>catch\<close>: an error object, with its
  \<^verbatim>\<open>message\<close> if it has one.
\<close>

datatype thrown = Thrown "string option"

subsection \<open>parseInt\<close>

text \<open>
  \<^verbatim>\<open>parseInt(string)\<close> with no radix: leading white space is skipped, a sign is
  read, the prefix \<^verbatim>\<open>0x\<close> or \<^verbatim>\<open>0X\<close> selects radix 16, and the longest run of digits
  of the radix is the number; with no digit the result is \<^verbatim>\<open>NaN\<close> (\<open>None\<close>).
  Whatever follows the digits is ignored.
\<close>

definition digitValue :: "char \<Rightarrow> nat option" where
  "digitValue c =
     (let n = (of_char c :: nat) in
      if 48 \<le> n \<and> n \<le> 57 then Some (n - 48)
      else if 97 \<le> n \<and> n \<le> 122 then Some (n - 87)
      else if 65 \<le> n \<and> n \<le> 90 then Some (n - 55)
      else None)"

definition isDigitOf :: "nat \<Rightarrow> char \<Rightarrow> bool" where
  "isDigitOf R c = (case digitValue c of None \<Rightarrow> False | Some v \<Rightarrow> v < R)"

definition digitsValue :: "nat \<Rightarrow> string \<Rightarrow> int" where
  "digitsValue R Z =
     foldl (\<lambda>acc c. acc * int R + int (case digitValue c of None \<Rightarrow> 0 | Some v \<Rightarrow> v)) 0 Z"

definition parseInt :: "string \<Rightarrow> int option" where
  "parseInt inputString =
     (let S = dropWhile isWhiteSpace inputString;
          sign = (if S \<noteq> [] \<and> hd S = CHR ''-'' then - 1 else 1 :: int);
          S1 = (if S \<noteq> [] \<and> (hd S = CHR ''+'' \<or> hd S = CHR ''-'') then tl S else S);
          hex = (take 2 S1 = ''0x'' \<or> take 2 S1 = ''0X'');
          R = (if hex then 16 else 10);
          S2 = (if hex then drop 2 S1 else S1);
          Z = takeWhile (isDigitOf R) S2
      in if Z = [] then None else Some (sign * digitsValue R Z))"

subsection \<open>The parts that the routes import\<close>

text \<open>
  \<^verbatim>\<open>storage\<close>: each call either returns or throws. An absent course id
  (\<^verbatim>\<open>NaN\<close>) is \<open>None\<close>.
\<close>

record storage =
  canUserAccessCourse :: "int option \<Rightarrow> string \<Rightarrow> bool \<Rightarrow> thrown + bool"
  resetUserCourseProgress :: "string \<Rightarrow> int option \<Rightarrow> thrown + unit"
  deleteProblemSetEnrollment :: "int \<Rightarrow> thrown + unit"

text \<open>
  The database as the routes query it: what \<^verbatim>\<open>ProblemSet.find({}).sort({ createdAt: -1 })\<close>
  returns, the \<^verbatim>\<open>ProblemSetEnrollment\<close> collection, the collection
  \<^verbatim>\<open>problemsets\<close> of \<^verbatim>\<open>getDb()\<close> and \<^verbatim>\<open>ProblemSetEnrollment.findOneAndUpdate\<close>.
  A query may throw: \<open>queryFails\<close> says which. \<open>objectIdOfTwelve\<close> is what the
  constructor \<^verbatim>\<open>new ObjectId(string)\<close> does with a string of length 12, which depends
  on the version of the driver (older ones take the 12 characters as the 12 bytes of the
  id, newer ones throw).
\<close>

datatype query = FindProblemSets | FindEnrollments | FindByParticipants

record database =
  problemSetsNewestFirst :: "storedSet list"
  enrollments :: "enrollment list"
  problemsetsCollection :: "storedSet list"
  objectIdOfTwelve :: "string \<Rightarrow> thrown + objectId"
  queryFails :: "query \<Rightarrow> thrown option"
  findOneAndUpdate :: "int \<Rightarrow> (string \<times> json) list \<Rightarrow> thrown + json option"





subsection \<open>POST /api/courses/:id/reset-progress\<close>

definition truthy :: "string option \<Rightarrow> bool" where
  "truthy v = (case v of None \<Rightarrow> False | Some s \<Rightarrow> s \<noteq> [])"

definition userIdOf :: "request \<Rightarrow> string option" where
  "userIdOf r = (case req_user r of None \<Rightarrow> None | Some u \<Rightarrow> user_id u)"

definition resetProgressHandler :: "storage \<Rightarrow> string \<Rightarrow> request \<Rightarrow> response" where
  "resetProgressHandler st idParam r =
     (let courseId = parseInt idParam;
          userId = userIdOf r;
          isAdmin = (case req_user r of None \<Rightarrow> False | Some u \<Rightarrow> user_role u = Some ''admin'')
      in if \<not> truthy userId then statusJson 401 (Message ''Unauthorized'')
         else case canUserAccessCourse st courseId (the userId) isAdmin of
                Inl err \<Rightarrow> statusJson 500 (Message ''Failed to reset course progress'')
              | Inr canAccess \<Rightarrow>
                  if \<not> canAccess then statusJson 403 (Message ''Access denied'')
                  else (case resetUserCourseProgress st (the userId) courseId of
                          Inl err \<Rightarrow> statusJson 500 (Message ''Failed to reset course progress'')
                        | Inr _ \<Rightarrow> json (Success True)))"

subsection \<open>GET /api/problem-sets-with-enrollment\<close>








subsection \<open>DELETE and PATCH /api/problem-set-enrollments/:enrollmentId\<close>

text \<open>\<^verbatim>\<open>message.includes(part)\<close>.\<close>

fun startsWith :: "string \<Rightarrow> string \<Rightarrow> bool" where
  "startsWith s [] = True"
| "startsWith [] (c # cs) = False"
| "startsWith (x # xs) (c # cs) = (x = c \<and> startsWith xs cs)"

fun includesStr :: "string \<Rightarrow> string \<Rightarrow> bool" where
  "includesStr [] part = (part = [])"
| "includesStr (x # xs) part = (startsWith (x # xs) part \<or> includesStr xs part)"

definition deleteEnrollmentHandler :: "storage \<Rightarrow> string \<Rightarrow> response" where
  "deleteEnrollmentHandler st enrollmentIdParam =
     (case parseInt enrollmentIdParam of
        None \<Rightarrow> statusJson 400 (Message ''Invalid enrollment id'')
      | Some enrollmentId \<Rightarrow>
          (case deleteProblemSetEnrollment st enrollmentId of
             Inr _ \<Rightarrow> json (Message ''Enrollment deleted'')
           | Inl (Thrown message) \<Rightarrow>
               if truthy message \<and> includesStr (the message) ''not found''
               then statusJson 404 (Message ''Enrollment not found'')
               else statusJson 500 (Message ''Failed to delete enrollment'')))"

text \<open>
  \<^verbatim>\<open>{ ..._req.body, updatedAt: new Date() }\<close>: a key that the body has keeps its place
  and takes the new value, a new key goes last.
\<close>

fun setKey :: "string \<Rightarrow> json \<Rightarrow> (string \<times> json) list \<Rightarrow> (string \<times> json) list" where
  "setKey k v [] = [(k, v)]"
| "setKey k v ((k', v') # kvs) = (if k' = k then (k, v) # kvs else (k', v') # setKey k v kvs)"

definition patchEnrollmentHandler :: "database \<Rightarrow> date \<Rightarrow> string \<Rightarrow> request \<Rightarrow> response" where
  "patchEnrollmentHandler db today enrollmentIdParam r =
     (case parseInt enrollmentIdParam of
        None \<Rightarrow> statusJson 400 (Message ''Invalid enrollment id'')
      | Some enrollmentId \<Rightarrow>
          (let update = setKey ''updatedAt'' (JDate today) (req_body r) in
           case findOneAndUpdate db enrollmentId update of
             Inl err \<Rightarrow> statusJson 500 (Message ''Failed to update enrollment'')
           | Inr None \<Rightarrow> statusJson 404 (Message ''Enrollment not found'')
           | Inr (Some updated) \<Rightarrow> json (Document updated)))"

subsection \<open>registerRoutes\<close>

















section \<open>Sample documents\<close>

text \<open>Concrete values on which the theorems below are instantiated.\<close>

definition sampleEnv :: env where
  "sampleEnv = \<lparr>now = 1000, writeFails = None\<rparr>"

definition sampleCourse :: course where
  "sampleCourse =
     \<lparr> c_id = Some 1, c_title = Some ''Graphs'', c_description = None, c_category = None,
       c_difficulty = Some ''beginner'', c_estimatedHours = Some 12, c_prerequisites = [],
       c_learningObjectives = [], c_problems = [], c_modules = [], c_enrolledUsers = [],
       c_isPublic = True, c_enableMarkComplete = True, c_createdBy = None, c_tags = [],
       c_allowDirectEnrollment = False, c_rating = Some 4, c_enrollmentCount = Some 0,
       c_completionRate = Some 50, c_createdAt = 0, c_updatedAt = 0 \<rparr>"

definition sampleInstance :: "string \<Rightarrow> int \<Rightarrow> int \<Rightarrow> problemInstance" where
  "sampleInstance ident problemId ord =
     \<lparr> pi__id = Some ident, pi_problemId = Some problemId, pi_title = None,
       pi_description = None, pi_difficulty = Some ''easy'', pi_customTestCases = [],
       pi_customExamples = [], pi_customStarterCode = None, pi_timeLimit = None,
       pi_memoryLimit = None, pi_hints = [], pi_constraints = None, pi_inputFormat = None,
       pi_outputFormat = None, pi_notes = None, pi_order = Some ord, pi_isCustomized = False,
       pi_lastModified = 0, pi_modifiedBy = None \<rparr>"

text \<open>
  A problem set with three instances, two of them customised copies of problem \<open>7\<close>,
  and a difficulty that is none of \<^verbatim>\<open>easy\<close>, \<^verbatim>\<open>medium\<close>, \<^verbatim>\<open>hard\<close>.
\<close>

definition sampleSet :: problemSet where
  "sampleSet =
     \<lparr> ps_id = Some ''set-1'', ps_title = Some ''Warm-up'', ps_description = None,
       ps_difficulty = Some ''mixed'', ps_category = None, ps_tags = [], ps_problemIds = [],
       ps_problemInstances =
         [sampleInstance ''a1'' 7 1, sampleInstance ''b2'' 7 2, sampleInstance ''c3'' 9 3],
       ps_isPublic = True, ps_estimatedTime = None, ps_totalProblems = 3,
       ps_createdBy = Some ''admin'', ps_participants = [], ps_allowDirectEnrollment = False,
       ps_createdAt = 0, ps_updatedAt = 0 \<rparr>"


text \<open>
  A storage that grants course \<open>3\<close>, denies course \<open>4\<close> and fails on any other; it
  deletes enrollment \<open>12\<close>, does not find enrollment \<open>13\<close> and fails on any other.
\<close>

definition sampleStorage :: storage where
  "sampleStorage =
     \<lparr> canUserAccessCourse = (\<lambda>courseId userId isAdmin.
          if courseId = Some 3 then Inr True
          else if courseId = Some 4 then Inr False
          else Inl (Thrown (Some ''connection lost''))),
       resetUserCourseProgress = (\<lambda>userId courseId. Inr ()),
       deleteProblemSetEnrollment = (\<lambda>enrollmentId.
          if enrollmentId = 12 then Inr ()
          else if enrollmentId = 13 then Inl (Thrown (Some ''Enrollment not found''))
          else Inl (Thrown (Some ''connection lost''))) \<rparr>"

definition sampleStoredSet :: "objectId \<Rightarrow> string \<Rightarrow> participant list \<Rightarrow> storedSet" where
  "sampleStoredSet mongoId ident participants =
     \<lparr> s__id = mongoId, s_id = Some ident, s_title = None, s_tags = None, s_problems = None,
       s_problemIds = Some [''p1'', ''p2''], s_problemInstances = None,
       s_participants = participants, s_createdAt = 0 \<rparr>"

text \<open>
  A database with three problem sets and two users. The member, whose id is an object
  id, has an enrollment record for the first set and is a participant (as an object id)
  of the second. The guest, whose id \<^verbatim>\<open>u1\<close> is no object id, has an enrollment record
  for the third set and is a participant (as a string) of it.
\<close>

definition memberId :: string where
  "memberId = ''64b7f0c2a1d3e4f5a6b7c8d9''"

definition sampleSets :: "storedSet list" where
  "sampleSets =
     [ sampleStoredSet ''5f0000000000000000000001'' ''set-a'' [],
       sampleStoredSet ''5f0000000000000000000002'' ''set-b'' [PObjectId memberId],
       sampleStoredSet ''5f0000000000000000000003'' ''set-c'' [PString ''u1''] ]"

definition sampleDatabase :: database where
  "sampleDatabase =
     \<lparr> problemSetsNewestFirst = sampleSets,
       enrollments =
         [ \<lparr>e_id = 1, e_userId = memberId, e_problemSetId = ''set-a''\<rparr>,
           \<lparr>e_id = 2, e_userId = ''u1'', e_problemSetId = ''set-c''\<rparr> ],
       problemsetsCollection = sampleSets,
       objectIdOfTwelve = (\<lambda>s. Inl (Thrown (Some ''input must be a 24 character hex string''))),
       queryFails = (\<lambda>q. None),
       findOneAndUpdate = (\<lambda>enrollmentId update.
          if enrollmentId = 12 then Inr (Some (JObj update))
          else if enrollmentId = 13 then Inr None
          else Inl (Thrown None)) \<rparr>"

definition sampleRequest :: "httpMethod \<Rightarrow> string \<Rightarrow> request" where
  "sampleRequest m path =
     \<lparr> req_method = m, req_path = path,
       req_user = Some \<lparr>user_id = Some ''u1'', user_role = Some ''student''\<rparr>,
       req_body = [(''status'', JStr ''active'')] \<rparr>"



section \<open>The reordering, stated without the loop\<close>

text \<open>
  The index of the last occurrence of \<open>x\<close> in \<open>xs\<close> (as \<^verbatim>\<open>lastIndexOf\<close> gives it
  when \<open>x\<close> occurs).
\<close>

fun lastIndexOf :: "'a list \<Rightarrow> 'a \<Rightarrow> nat" where
  "lastIndexOf [] x = 0"
| "lastIndexOf (y # ys) x = (if x \<in> set ys then Suc (lastIndexOf ys x) else 0)"

text \<open>
  For each id of \<open>newOrder\<close> in turn: the first instance with that \<^verbatim>\<open>problemId\<close>, if
  there is one, with its \<^verbatim>\<open>order\<close> set to the 1-based position of the last
  occurrence of the id in \<open>newOrder\<close>.
\<close>

definition reordered :: "problemInstance list \<Rightarrow> int list \<Rightarrow> problemInstance list" where
  "reordered xs newOrder =
     concat (map (\<lambda>problemId.
        case find (\<lambda>p. pi_problemId p = Some problemId) xs of
          None \<Rightarrow> []
        | Some p \<Rightarrow> [p\<lparr>pi_order := Some (int (lastIndexOf newOrder problemId) + 1)\<rparr>]) newOrder)"

section \<open>Properties of \<open>save\<close> and of the schema rules\<close>

lemma doc_save: "doc (save e v d) = d"
  by (simp add: save_def split: list.splits option.splits)

lemma persisted_save:
  "persisted (save e v d) = (if v d = [] \<and> writeFails e = None then Some d else None)"
  by (simp add: save_def split: list.splits option.splits)

lemma thrown_save:
  "thrown (save e v d) =
     (if v d \<noteq> [] then Some (ValidationError (v d))
      else map_option StorageError (writeFails e))"
  by (simp add: save_def split: list.splits option.splits)

lemma required_Nil: "required p v = [] \<longleftrightarrow> v \<noteq> None"
  by (simp add: required_def split: option.splits)

lemma requiredString_Nil: "requiredString p v = [] \<longleftrightarrow> (\<exists>s. v = Some s \<and> s \<noteq> [])"
  by (simp add: requiredString_def split: option.splits)

lemma enum_Nil: "enum p vals v = [] \<longleftrightarrow> (\<forall>s. v = Some s \<longrightarrow> s \<in> set vals)"
  by (simp add: enum_def split: option.splits)

lemma minRule_Nil: "minRule p lo v = [] \<longleftrightarrow> (\<forall>x. v = Some x \<longrightarrow> lo \<le> x)"
  by (auto simp add: minRule_def split: option.splits)

lemma maxRule_Nil: "maxRule p hi v = [] \<longleftrightarrow> (\<forall>x. v = Some x \<longrightarrow> x \<le> hi)"
  by (auto simp add: maxRule_def split: option.splits)

lemma validateCourse_Nil:
  "validateCourse c = [] \<longleftrightarrow>
     c_id c \<noteq> None \<and> (\<exists>s. c_title c = Some s \<and> s \<noteq> [])
     \<and> (\<forall>s. c_difficulty c = Some s \<longrightarrow> s \<in> set courseDifficulties)
     \<and> (\<forall>x. c_estimatedHours c = Some x \<longrightarrow> 0 \<le> x)
     \<and> (\<forall>x. c_rating c = Some x \<longrightarrow> 0 \<le> x \<and> x \<le> 5)
     \<and> (\<forall>x. c_enrollmentCount c = Some x \<longrightarrow> 0 \<le> x)
     \<and> (\<forall>x. c_completionRate c = Some x \<longrightarrow> 0 \<le> x \<and> x \<le> 100)"
  unfolding validateCourse_def append_is_Nil_conv required_Nil requiredString_Nil enum_Nil
    minRule_Nil maxRule_Nil
  by blast

lemma validateCourse_sample: "validateCourse sampleCourse = []"
  by (simp add: validateCourse_Nil sampleCourse_def courseDifficulties_def)

section \<open>Course: the enrollment count\<close>

lemma countOrZero_eq: "countOrZero v = (case v of None \<Rightarrow> 0 | Some n \<Rightarrow> n)"
  by (simp add: countOrZero_def split: option.splits)

text \<open>
  Claim C10. \<^verbatim>\<open>incrementEnrollment\<close> sets \<^verbatim>\<open>enrollmentCount\<close> to the previous value
  plus one, a missing value counting as \<open>0\<close>; \<^verbatim>\<open>decrementEnrollment\<close> sets it to the
  maximum of \<open>0\<close> and the previous value minus one. No other field changes. So a count
  that is not negative stays so under both, and decrementing the count \<open>0\<close> leaves \<open>0\<close>.
  A snapshot that the call writes is the document with the new count.
\<close>

theorem enrollment_count_updates:
  "doc (incrementEnrollment e c) =
     c\<lparr>c_enrollmentCount := Some ((case c_enrollmentCount c of None \<Rightarrow> 0 | Some n \<Rightarrow> n) + 1)\<rparr>
   \<and> doc (decrementEnrollment e c) =
     c\<lparr>c_enrollmentCount :=
         Some (max 0 ((case c_enrollmentCount c of None \<Rightarrow> 0 | Some n \<Rightarrow> n) - 1))\<rparr>
   \<and> ((\<forall>n. c_enrollmentCount c = Some n \<longrightarrow> 0 \<le> n) \<longrightarrow>
        (\<exists>m. c_enrollmentCount (doc (incrementEnrollment e c)) = Some m \<and> 0 \<le> m))
   \<and> (\<exists>m. c_enrollmentCount (doc (decrementEnrollment e c)) = Some m \<and> 0 \<le> m)
   \<and> (c_enrollmentCount c = Some 0 \<longrightarrow>
        c_enrollmentCount (doc (decrementEnrollment e c)) = Some 0)
   \<and> (\<forall>d. persisted (incrementEnrollment e c) = Some d \<longrightarrow> d = doc (incrementEnrollment e c))
   \<and> (\<forall>d. persisted (decrementEnrollment e c) = Some d \<longrightarrow> d = doc (decrementEnrollment e c))"
  by (auto simp add: incrementEnrollment_def decrementEnrollment_def doc_save persisted_save
      countOrZero_eq split: option.splits if_splits)

theorem enrollment_count_updates_witness:
  "c_enrollmentCount sampleCourse = Some 0
   \<and> c_enrollmentCount (doc (incrementEnrollment sampleEnv sampleCourse)) = Some 1
   \<and> c_enrollmentCount (doc (decrementEnrollment sampleEnv sampleCourse)) = Some 0
   \<and> persisted (incrementEnrollment sampleEnv sampleCourse)
       = Some (sampleCourse\<lparr>c_enrollmentCount := Some 1\<rparr>)"
proof -
  have count: "c_enrollmentCount sampleCourse = Some 0"
    by (simp add: sampleCourse_def)
  have valid: "validateCourse (sampleCourse\<lparr>c_enrollmentCount := Some 1\<rparr>) = []"
    by (simp add: validateCourse_Nil sampleCourse_def courseDifficulties_def)
  have saved: "persisted (incrementEnrollment sampleEnv sampleCourse)
       = Some (sampleCourse\<lparr>c_enrollmentCount := Some 1\<rparr>)"
    using valid
    by (simp add: incrementEnrollment_def persisted_save countOrZero_eq count sampleEnv_def)
  note inst = enrollment_count_updates [of sampleEnv sampleCourse]
  have incr: "c_enrollmentCount (doc (incrementEnrollment sampleEnv sampleCourse)) = Some 1"
    using inst [THEN conjunct1] by (simp add: count)
  have decr: "c_enrollmentCount (doc (decrementEnrollment sampleEnv sampleCourse)) = Some 0"
    using inst [THEN conjunct2, THEN conjunct2, THEN conjunct2, THEN conjunct2, THEN conjunct1]
      count by (rule mp)
  show ?thesis
    using count incr decr saved by (intro conjI)
qed

section \<open>Course: the bounds of rating and completion rate\<close>

text \<open>
  Claim C4. A course that passes validation has its rating, when it has one, in
  \<open>[0, 5]\<close> and its completion rate, when it has one, in \<open>[0, 100]\<close>. A save of a course
  that violates one of the bounds is rejected with a validation error and writes
  nothing. So every course that a save writes satisfies the bounds.
\<close>

theorem course_bounds:
  "(validateCourse c = [] \<longrightarrow>
      (\<forall>r. c_rating c = Some r \<longrightarrow> 0 \<le> r \<and> r \<le> 5)
      \<and> (\<forall>p. c_completionRate c = Some p \<longrightarrow> 0 \<le> p \<and> p \<le> 100))
   \<and> ((\<exists>r. c_rating c = Some r \<and> (r < 0 \<or> 5 < r))
        \<or> (\<exists>p. c_completionRate c = Some p \<and> (p < 0 \<or> 100 < p)) \<longrightarrow>
       persisted (save e validateCourse c) = None
       \<and> (\<exists>fs. thrown (save e validateCourse c) = Some (ValidationError fs)))
   \<and> (\<forall>d. persisted (save e validateCourse c) = Some d \<longrightarrow>
         d = c
         \<and> (\<forall>r. c_rating d = Some r \<longrightarrow> 0 \<le> r \<and> r \<le> 5)
         \<and> (\<forall>p. c_completionRate d = Some p \<longrightarrow> 0 \<le> p \<and> p \<le> 100))"
proof -
  have a: "validateCourse c = [] \<longrightarrow>
      (\<forall>r. c_rating c = Some r \<longrightarrow> 0 \<le> r \<and> r \<le> 5)
      \<and> (\<forall>p. c_completionRate c = Some p \<longrightarrow> 0 \<le> p \<and> p \<le> 100)"
    by (simp add: validateCourse_Nil)
  have b: "(\<exists>r. c_rating c = Some r \<and> (r < 0 \<or> 5 < r))
        \<or> (\<exists>p. c_completionRate c = Some p \<and> (p < 0 \<or> 100 < p)) \<longrightarrow> validateCourse c \<noteq> []"
    by (auto simp add: validateCourse_Nil)
  show ?thesis
    using a b by (auto simp add: persisted_save thrown_save split: if_splits)
qed

theorem course_bounds_witness:
  "validateCourse sampleCourse = []
   \<and> c_rating sampleCourse = Some 4
   \<and> persisted (save sampleEnv validateCourse sampleCourse) = Some sampleCourse
   \<and> persisted (save sampleEnv validateCourse (sampleCourse\<lparr>c_rating := Some 6\<rparr>)) = None
   \<and> persisted (save sampleEnv validateCourse (sampleCourse\<lparr>c_completionRate := Some (- 1)\<rparr>))
       = None"
proof -
  have saved: "persisted (save sampleEnv validateCourse sampleCourse) = Some sampleCourse"
    by (simp add: persisted_save validateCourse_sample sampleEnv_def)
  have rating: "c_rating sampleCourse = Some 4"
    by (simp add: sampleCourse_def)
  show ?thesis
    using course_bounds [of sampleCourse sampleEnv]
      course_bounds [of "sampleCourse\<lparr>c_rating := Some 6\<rparr>" sampleEnv]
      course_bounds [of "sampleCourse\<lparr>c_completionRate := Some (- 1)\<rparr>" sampleEnv]
      saved rating validateCourse_sample
    by simp
qed

section \<open>The difficulty rules\<close>

lemma validateElements_Nil:
  "validateElements path i ps = [] \<longleftrightarrow> (\<forall>p\<in>set ps. validateInstance p = [])"
  by (induction ps arbitrary: i) auto

lemma Fails_notin_validateElements: "Fails q r \<notin> set (validateElements path i ps)"
  by (induction ps arbitrary: i) auto

lemma validateInstance_Nil:
  "validateInstance p = [] \<longleftrightarrow>
     pi_problemId p \<noteq> None
     \<and> (\<forall>s. pi_difficulty p = Some s \<longrightarrow> s \<in> set instanceDifficulties)
     \<and> pi_order p \<noteq> None"
  unfolding validateInstance_def append_is_Nil_conv required_Nil enum_Nil by blast

lemma validateProblemSet_Nil:
  "validateProblemSet d = [] \<longleftrightarrow>
     (\<exists>s. ps_id d = Some s \<and> s \<noteq> []) \<and> (\<exists>s. ps_title d = Some s \<and> s \<noteq> [])
     \<and> (\<exists>s. ps_difficulty d = Some s \<and> s \<noteq> [])
     \<and> (\<forall>p\<in>set (ps_problemInstances d). validateInstance p = [])
     \<and> (\<exists>s. ps_createdBy d = Some s \<and> s \<noteq> [])"
  unfolding validateProblemSet_def append_is_Nil_conv requiredString_Nil validateElements_Nil
  by blast

lemma set_requiredString:
  "set (requiredString p v) = (if truthy v then {} else {Fails p Required})"
  by (simp add: requiredString_def truthy_def split: option.splits)

lemma set_enum:
  "set (enum p vals v) = (if (\<exists>s. v = Some s \<and> s \<notin> set vals) then {Fails p Enum} else {})"
  by (cases v) (auto simp add: enum_def)

lemma validateInstance_sample: "validateInstance (sampleInstance i p ord) = []"
  by (simp add: validateInstance_Nil sampleInstance_def instanceDifficulties_def)

lemma validateProblemSet_sample: "validateProblemSet sampleSet = []"
  by (simp add: validateProblemSet_Nil sampleSet_def validateInstance_sample)

text \<open>
  Claim C3, as amended. The difficulty of a course is constrained to \<^verbatim>\<open>beginner\<close>,
  \<^verbatim>\<open>intermediate\<close>, \<^verbatim>\<open>advanced\<close> and the difficulty of a problem instance to
  \<^verbatim>\<open>easy\<close>, \<^verbatim>\<open>medium\<close>, \<^verbatim>\<open>hard\<close>, each by an \<^verbatim>\<open>enum\<close> rule of its schema: a
  document with a difficulty outside the enumeration fails validation, also an instance
  inside a problem set. The difficulty of a problem set itself has no enumeration: the
  only rule of that path is \<^verbatim>\<open>required\<close>, which fails exactly when the difficulty
  is missing or empty.
\<close>

theorem difficulty_rules:
  "(validateCourse c = [] \<longrightarrow>
      (\<forall>s. c_difficulty c = Some s \<longrightarrow> s \<in> {''beginner'', ''intermediate'', ''advanced''}))
   \<and> ((\<exists>s. c_difficulty c = Some s \<and> s \<notin> {''beginner'', ''intermediate'', ''advanced''}) \<longrightarrow>
        Fails ''difficulty'' Enum \<in> set (validateCourse c))
   \<and> (validateInstance p = [] \<longrightarrow>
        (\<forall>s. pi_difficulty p = Some s \<longrightarrow> s \<in> {''easy'', ''medium'', ''hard''}))
   \<and> ((\<exists>s. pi_difficulty p = Some s \<and> s \<notin> {''easy'', ''medium'', ''hard''}) \<longrightarrow>
        Fails ''difficulty'' Enum \<in> set (validateInstance p))
   \<and> (validateProblemSet d = [] \<longrightarrow>
        (\<forall>q\<in>set (ps_problemInstances d). \<forall>s. pi_difficulty q = Some s \<longrightarrow>
            s \<in> {''easy'', ''medium'', ''hard''}))
   \<and> (\<forall>r. Fails ''difficulty'' r \<in> set (validateProblemSet d) \<longleftrightarrow>
            r = Required \<and> (ps_difficulty d = None \<or> ps_difficulty d = Some []))"
proof (intro conjI)
  show "validateCourse c = [] \<longrightarrow>
      (\<forall>s. c_difficulty c = Some s \<longrightarrow> s \<in> {''beginner'', ''intermediate'', ''advanced''})"
    by (simp add: validateCourse_Nil courseDifficulties_def)
  show "(\<exists>s. c_difficulty c = Some s \<and> s \<notin> {''beginner'', ''intermediate'', ''advanced''}) \<longrightarrow>
        Fails ''difficulty'' Enum \<in> set (validateCourse c)"
    by (auto simp add: validateCourse_def set_enum courseDifficulties_def)
  show "validateInstance p = [] \<longrightarrow>
        (\<forall>s. pi_difficulty p = Some s \<longrightarrow> s \<in> {''easy'', ''medium'', ''hard''})"
    by (simp add: validateInstance_Nil instanceDifficulties_def)
  show "(\<exists>s. pi_difficulty p = Some s \<and> s \<notin> {''easy'', ''medium'', ''hard''}) \<longrightarrow>
        Fails ''difficulty'' Enum \<in> set (validateInstance p)"
    by (auto simp add: validateInstance_def set_enum instanceDifficulties_def)
  show "validateProblemSet d = [] \<longrightarrow>
        (\<forall>q\<in>set (ps_problemInstances d). \<forall>s. pi_difficulty q = Some s \<longrightarrow>
            s \<in> {''easy'', ''medium'', ''hard''})"
    by (simp add: validateProblemSet_Nil validateInstance_Nil instanceDifficulties_def)
  show "\<forall>r. Fails ''difficulty'' r \<in> set (validateProblemSet d) \<longleftrightarrow>
            r = Required \<and> (ps_difficulty d = None \<or> ps_difficulty d = Some [])"
    by (auto simp add: validateProblemSet_def set_requiredString Fails_notin_validateElements
        truthy_def split: if_splits option.splits)
qed

theorem difficulty_rules_witness:
  "validateProblemSet sampleSet = []
   \<and> map pi_difficulty (ps_problemInstances sampleSet)
       = [Some ''easy'', Some ''easy'', Some ''easy'']
   \<and> Fails ''difficulty'' Enum \<in> set (validateCourse (sampleCourse\<lparr>c_difficulty := Some ''easy''\<rparr>))
   \<and> Fails ''difficulty'' Enum
       \<in> set (validateInstance ((sampleInstance ''a1'' 7 1)\<lparr>pi_difficulty := Some ''beginner''\<rparr>))
   \<and> Fails ''difficulty'' Required
       \<in> set (validateProblemSet (sampleSet\<lparr>ps_difficulty := None\<rparr>))"
proof -
  have easy: "map pi_difficulty (ps_problemInstances sampleSet)
       = [Some ''easy'', Some ''easy'', Some ''easy'']"
    by (simp add: sampleSet_def sampleInstance_def)
  have c: "Fails ''difficulty'' Enum \<in> set (validateCourse (sampleCourse\<lparr>c_difficulty := Some ''easy''\<rparr>))"
    using difficulty_rules [of "sampleCourse\<lparr>c_difficulty := Some ''easy''\<rparr>" undefined undefined,
        THEN conjunct2, THEN conjunct1]
    by simp
  have i: "Fails ''difficulty'' Enum
       \<in> set (validateInstance ((sampleInstance ''a1'' 7 1)\<lparr>pi_difficulty := Some ''beginner''\<rparr>))"
    using difficulty_rules [of undefined
        "(sampleInstance ''a1'' 7 1)\<lparr>pi_difficulty := Some ''beginner''\<rparr>" undefined,
        THEN conjunct2, THEN conjunct2, THEN conjunct2, THEN conjunct1]
    by simp
  have s: "Fails ''difficulty'' Required
       \<in> set (validateProblemSet (sampleSet\<lparr>ps_difficulty := None\<rparr>))"
    using difficulty_rules [of undefined undefined "sampleSet\<lparr>ps_difficulty := None\<rparr>",
        THEN conjunct2, THEN conjunct2, THEN conjunct2, THEN conjunct2, THEN conjunct2]
    by simp
  show ?thesis
    using validateProblemSet_sample easy c i s by (intro conjI)
qed

text \<open>
  The claim as stated fails for problem sets: the sample set has the difficulty
  \<^verbatim>\<open>mixed\<close>, passes validation and is written by \<^verbatim>\<open>save\<close>.
\<close>

theorem problem_set_difficulty_counterexample:
  "ps_difficulty sampleSet = Some ''mixed''
   \<and> ''mixed'' \<notin> set instanceDifficulties \<and> ''mixed'' \<notin> set courseDifficulties
   \<and> validateProblemSet sampleSet = []
   \<and> persisted (save sampleEnv validateProblemSet sampleSet) = Some sampleSet
   \<and> thrown (save sampleEnv validateProblemSet sampleSet) = None"
  by (simp add: persisted_save thrown_save validateProblemSet_sample sampleEnv_def
      instanceDifficulties_def courseDifficulties_def) (simp add: sampleSet_def)

section \<open>Problem sets: the count of problems\<close>

text \<open>
  Claim C9. After \<^verbatim>\<open>addProblem\<close>, \<^verbatim>\<open>removeProblem\<close> and
  \<^verbatim>\<open>removeProblemInstance\<close> the field \<^verbatim>\<open>totalProblems\<close> is the length of
  \<^verbatim>\<open>problemInstances\<close>, whatever it was before. \<^verbatim>\<open>reorderProblems\<close> leaves
  \<^verbatim>\<open>totalProblems\<close> as it was, and it can shorten \<^verbatim>\<open>problemInstances\<close>: on the
  sample set, where the invariant holds, the order \<open>[9]\<close> leaves one instance of three
  and the invariant no longer holds.
\<close>

theorem totalProblems_invariant:
  "ps_totalProblems (doc (addProblem e d inst))
      = int (length (ps_problemInstances (doc (addProblem e d inst))))
   \<and> ps_totalProblems (doc (removeProblem e d problemId))
      = int (length (ps_problemInstances (doc (removeProblem e d problemId))))
   \<and> ps_totalProblems (doc (removeProblemInstance e d ident))
      = int (length (ps_problemInstances (doc (removeProblemInstance e d ident))))
   \<and> ps_totalProblems (doc (reorderProblems e d newOrder)) = ps_totalProblems d
   \<and> ps_totalProblems sampleSet = int (length (ps_problemInstances sampleSet))
   \<and> length (ps_problemInstances (doc (reorderProblems e sampleSet [9])))
        < length (ps_problemInstances sampleSet)
   \<and> ps_totalProblems (doc (reorderProblems e sampleSet [9]))
        \<noteq> int (length (ps_problemInstances (doc (reorderProblems e sampleSet [9]))))"
proof (intro conjI)
  show "ps_totalProblems (doc (addProblem e d inst))
      = int (length (ps_problemInstances (doc (addProblem e d inst))))"
    by (simp add: addProblem_def doc_save)
  show "ps_totalProblems (doc (removeProblem e d problemId))
      = int (length (ps_problemInstances (doc (removeProblem e d problemId))))"
    by (simp add: removeProblem_def doc_save)
  show "ps_totalProblems (doc (removeProblemInstance e d ident))
      = int (length (ps_problemInstances (doc (removeProblemInstance e d ident))))"
    by (simp add: removeProblemInstance_def doc_save)
  show "ps_totalProblems (doc (reorderProblems e d newOrder)) = ps_totalProblems d"
    by (simp add: reorderProblems_def doc_save split: prod.splits)
  show "ps_totalProblems sampleSet = int (length (ps_problemInstances sampleSet))"
    by (simp add: sampleSet_def)
  have len: "length (ps_problemInstances (doc (reorderProblems e sampleSet [9]))) = 1"
    by (simp add: reorderProblems_def doc_save sampleSet_def sampleInstance_def)
  show "length (ps_problemInstances (doc (reorderProblems e sampleSet [9])))
        < length (ps_problemInstances sampleSet)"
    unfolding len by (simp add: sampleSet_def)
  have "ps_totalProblems (doc (reorderProblems e sampleSet [9])) = 3"
    by (simp add: reorderProblems_def doc_save split: prod.splits) (simp add: sampleSet_def)
  then show "ps_totalProblems (doc (reorderProblems e sampleSet [9]))
        \<noteq> int (length (ps_problemInstances (doc (reorderProblems e sampleSet [9]))))"
    unfolding len by simp
qed


theorem totalProblems_invariant_witness:
  "ps_totalProblems (doc (addProblem sampleEnv sampleSet (sampleInstance ''d4'' 11 4))) = 4
   \<and> ps_totalProblems (doc (removeProblem sampleEnv sampleSet 7)) = 1
   \<and> ps_totalProblems (doc (removeProblemInstance sampleEnv sampleSet ''a1'')) = 2
   \<and> ps_totalProblems (doc (reorderProblems sampleEnv sampleSet [9])) = 3"
proof -
  note inst = totalProblems_invariant
      [of sampleEnv sampleSet "sampleInstance ''d4'' 11 4" 7 "''a1''" "[9]"]
  have a: "length (ps_problemInstances (doc (addProblem sampleEnv sampleSet (sampleInstance ''d4'' 11 4)))) = 4"
    by (simp add: addProblem_def doc_save sampleSet_def)
  have b: "length (ps_problemInstances (doc (removeProblem sampleEnv sampleSet 7))) = 1"
    by (simp add: removeProblem_def doc_save sampleSet_def sampleInstance_def)
  have c: "length (ps_problemInstances (doc (removeProblemInstance sampleEnv sampleSet ''a1''))) = 2"
    by (simp add: removeProblemInstance_def doc_save sampleSet_def sampleInstance_def)
  have d: "ps_totalProblems sampleSet = 3"
    by (simp add: sampleSet_def)
  show ?thesis
    using inst a b c d by simp
qed

section \<open>Problem sets: reordering\<close>


lemma findIndex_Some:
  "findIndex P xs = Some i \<longleftrightarrow> i < length xs \<and> P (xs ! i) \<and> (\<forall>j<i. \<not> P (xs ! j))"
proof (induction xs arbitrary: i)
  case Nil
  then show ?case by simp
next
  case (Cons x xs)
  show ?case
  proof (cases "P x")
    case True
    then show ?thesis by (cases i) auto
  next
    case False
    show ?thesis
    proof (cases i)
      case 0
      with False show ?thesis by auto
    next
      case (Suc k)
      have "(\<forall>j<Suc k. \<not> P ((x # xs) ! j)) \<longleftrightarrow> (\<forall>j<k. \<not> P (xs ! j))"
        using False by (auto simp add: less_Suc_eq_0_disj)
      with False Suc Cons.IH [of k] show ?thesis by auto
    qed
  qed
qed

lemma findIndex_find: "find P xs = map_option (\<lambda>i. xs ! i) (findIndex P xs)"
  by (induction xs) (auto simp add: option.map_comp comp_def)

lemma findIndex_map_cong:
  "map f xs = map f ys \<Longrightarrow> findIndex (\<lambda>x. Q (f x)) xs = findIndex (\<lambda>x. Q (f x)) ys"
proof (induction xs arbitrary: ys)
  case Nil
  then show ?case by simp
next
  case (Cons x xs)
  then obtain y ys' where "ys = y # ys'" by (cases ys) auto
  with Cons show ?case by auto
qed


lemma ids_set_order:
  assumes "r < length objs"
  shows "map pi_problemId (objs[r := (objs ! r)\<lparr>pi_order := v\<rparr>]) = map pi_problemId objs"
  using assms by (simp add: list_eq_iff_nth_eq nth_list_update)

lemma findIndex_set_order:
  assumes "r < length objs"
  shows "findIndex (\<lambda>p. pi_problemId p = Some q) (objs[r := (objs ! r)\<lparr>pi_order := v\<rparr>])
         = findIndex (\<lambda>p. pi_problemId p = Some q) objs"
  using findIndex_map_cong [OF ids_set_order [OF assms], of "\<lambda>k. k = Some q"] .

lemma reorderMap_Cons_Some:
  assumes "findIndex (\<lambda>p. pi_problemId p = Some q) objs = Some r"
  shows "reorderMap objs (q # rest) i =
           (fst (reorderMap (objs[r := (objs ! r)\<lparr>pi_order := Some (int i + 1)\<rparr>]) rest (Suc i)),
            Some r # snd (reorderMap (objs[r := (objs ! r)\<lparr>pi_order := Some (int i + 1)\<rparr>]) rest (Suc i)))"
  using assms by (simp add: Let_def split: prod.splits)

lemma reorderMap_Cons_None:
  assumes "findIndex (\<lambda>p. pi_problemId p = Some q) objs = None"
  shows "reorderMap objs (q # rest) i =
           (fst (reorderMap objs rest (Suc i)), None # snd (reorderMap objs rest (Suc i)))"
  using assms by (simp add: Let_def split: prod.splits)

lemma reorderMap_refs:
  "snd (reorderMap objs rest i) = map (\<lambda>q. findIndex (\<lambda>p. pi_problemId p = Some q) objs) rest"
proof (induction rest arbitrary: objs i)
  case Nil
  then show ?case by simp
next
  case (Cons q rest)
  show ?case
  proof (cases "findIndex (\<lambda>p. pi_problemId p = Some q) objs")
    case None
    then show ?thesis by (simp only: reorderMap_Cons_None Cons.IH snd_conv list.map)
  next
    case (Some r)
    then have r: "r < length objs" by (simp add: findIndex_Some)
    show ?thesis
      by (simp only: reorderMap_Cons_Some [OF Some] Cons.IH snd_conv list.map
          findIndex_set_order [OF r] Some)
  qed
qed

lemma reorderMap_contents:
  assumes "findIndex (\<lambda>p. pi_problemId p = Some q) objs = Some r"
  shows "fst (reorderMap objs rest i) ! r =
           (if q \<in> set rest
            then (objs ! r)\<lparr>pi_order := Some (int (i + lastIndexOf rest q) + 1)\<rparr>
            else objs ! r)"
  using assms
proof (induction rest arbitrary: objs i)
  case Nil
  then show ?case by simp
next
  case (Cons q' rest)
  have r: "r < length objs" and qr: "pi_problemId (objs ! r) = Some q"
    using Cons.prems by (simp_all add: findIndex_Some)
  show ?case
  proof (cases "findIndex (\<lambda>p. pi_problemId p = Some q') objs")
    case None
    then have "q' \<noteq> q" using Cons.prems by auto
    then show ?thesis
      using Cons.IH [OF Cons.prems, of "Suc i"] by (simp add: reorderMap_Cons_None [OF None] del: reorderMap.simps)
  next
    case (Some r')
    have r': "r' < length objs" and qr': "pi_problemId (objs ! r') = Some q'"
      using Some by (simp_all add: findIndex_Some)
    let ?objs1 = "objs[r' := (objs ! r')\<lparr>pi_order := Some (int i + 1)\<rparr>]"
    have found: "findIndex (\<lambda>p. pi_problemId p = Some q) ?objs1 = Some r"
      using Cons.prems by (simp only: findIndex_set_order [OF r'])
    have same: "r = r' \<longleftrightarrow> q = q'"
      using Cons.prems Some qr qr' by auto
    have IH: "fst (reorderMap ?objs1 rest (Suc i)) ! r =
           (if q \<in> set rest
            then (?objs1 ! r)\<lparr>pi_order := Some (int (Suc i + lastIndexOf rest q) + 1)\<rparr>
            else ?objs1 ! r)"
      by (rule Cons.IH [OF found])
    have upd: "\<And>v. (?objs1 ! r)\<lparr>pi_order := v\<rparr> = (objs ! r)\<lparr>pi_order := v\<rparr>"
      using r r' by (cases "r = r'") simp_all
    show ?thesis
    proof (cases "q \<in> set rest")
      case True
      then show ?thesis
        by (simp add: reorderMap_Cons_Some [OF Some] IH upd del: reorderMap.simps)
    next
      case False
      have last: "fst (reorderMap ?objs1 rest (Suc i)) ! r = ?objs1 ! r"
        using IH False by simp
      have "fst (reorderMap objs (q' # rest) i) ! r = ?objs1 ! r"
        by (simp add: reorderMap_Cons_Some [OF Some] last del: reorderMap.simps)
      also have "?objs1 ! r = (if q = q' then (objs ! r)\<lparr>pi_order := Some (int i + 1)\<rparr>
                               else objs ! r)"
        using same r r' by (cases "r = r'") simp_all
      also have "\<dots> = (if q \<in> set (q' # rest)
            then (objs ! r)\<lparr>pi_order := Some (int (i + lastIndexOf (q' # rest) q) + 1)\<rparr>
            else objs ! r)"
        using False by auto
      finally show ?thesis .
    qed
  qed
qed


lemma reorder_collect:
  assumes "set qs \<subseteq> set newOrder"
  shows "map (\<lambda>r. fst (reorderMap xs newOrder 0) ! r)
           (filterBoolean (map (\<lambda>q. findIndex (\<lambda>p. pi_problemId p = Some q) xs) qs))
         = concat (map (\<lambda>q.
              case find (\<lambda>p. pi_problemId p = Some q) xs of
                None \<Rightarrow> []
              | Some p \<Rightarrow> [p\<lparr>pi_order := Some (int (lastIndexOf newOrder q) + 1)\<rparr>]) qs)"
  using assms
proof (induction qs)
  case Nil
  then show ?case by simp
next
  case (Cons q qs)
  then have q: "q \<in> set newOrder" and qs: "set qs \<subseteq> set newOrder" by simp_all
  show ?case
  proof (cases "findIndex (\<lambda>p. pi_problemId p = Some q) xs")
    case None
    then show ?thesis
      using Cons.IH [OF qs] by (simp add: findIndex_find)
  next
    case (Some r)
    have "fst (reorderMap xs newOrder 0) ! r
            = (xs ! r)\<lparr>pi_order := Some (int (lastIndexOf newOrder q) + 1)\<rparr>"
      using reorderMap_contents [OF Some, of newOrder 0] q by simp
    then show ?thesis
      using Cons.IH [OF qs] Some by (simp add: findIndex_find)
  qed
qed

lemma reorderProblems_instances:
  "ps_problemInstances (doc (reorderProblems e d newOrder))
     = reordered (ps_problemInstances d) newOrder"
proof -
  obtain objs refs where m: "reorderMap (ps_problemInstances d) newOrder 0 = (objs, refs)"
    by (cases "reorderMap (ps_problemInstances d) newOrder 0")
  have refs: "refs = map (\<lambda>q. findIndex (\<lambda>p. pi_problemId p = Some q) (ps_problemInstances d)) newOrder"
    using reorderMap_refs [of "ps_problemInstances d" newOrder 0] m by simp
  have objs: "objs = fst (reorderMap (ps_problemInstances d) newOrder 0)"
    using m by simp
  have "ps_problemInstances (doc (reorderProblems e d newOrder))
          = map (\<lambda>r. objs ! r) (filterBoolean refs)"
    by (simp add: reorderProblems_def m doc_save)
  also have "\<dots> = reordered (ps_problemInstances d) newOrder"
    unfolding refs objs reordered_def by (rule reorder_collect) simp
  finally show ?thesis .
qed

lemma lastIndexOf_props:
  assumes "x \<in> set xs"
  shows "lastIndexOf xs x < length xs \<and> xs ! lastIndexOf xs x = x
         \<and> (\<forall>j<length xs. xs ! j = x \<longrightarrow> j \<le> lastIndexOf xs x)"
  using assms
proof (induction xs)
  case Nil
  then show ?case by simp
next
  case (Cons y ys)
  show ?case
  proof (cases "x \<in> set ys")
    case True
    with Cons.IH show ?thesis
      by (auto simp add: nth_Cons split: nat.splits)
  next
    case False
    with Cons.prems have "x = y" by simp
    with False show ?thesis
      by (auto simp add: nth_Cons split: nat.splits)
  qed
qed

lemma in_set_reordered:
  "y \<in> set (reordered xs newOrder) \<longleftrightarrow>
     (\<exists>q\<in>set newOrder. \<exists>p. find (\<lambda>p. pi_problemId p = Some q) xs = Some p
         \<and> y = p\<lparr>pi_order := Some (int (lastIndexOf newOrder q) + 1)\<rparr>)"
proof
  assume "y \<in> set (reordered xs newOrder)"
  then obtain q where q: "q \<in> set newOrder"
    and y: "y \<in> set (case find (\<lambda>p. pi_problemId p = Some q) xs of
                None \<Rightarrow> []
              | Some p \<Rightarrow> [p\<lparr>pi_order := Some (int (lastIndexOf newOrder q) + 1)\<rparr>])"
    by (auto simp add: reordered_def)
  then show "\<exists>q\<in>set newOrder. \<exists>p. find (\<lambda>p. pi_problemId p = Some q) xs = Some p
         \<and> y = p\<lparr>pi_order := Some (int (lastIndexOf newOrder q) + 1)\<rparr>"
    by (cases "find (\<lambda>p. pi_problemId p = Some q) xs") auto
next
  assume "\<exists>q\<in>set newOrder. \<exists>p. find (\<lambda>p. pi_problemId p = Some q) xs = Some p
         \<and> y = p\<lparr>pi_order := Some (int (lastIndexOf newOrder q) + 1)\<rparr>"
  then obtain q p where "q \<in> set newOrder" "find (\<lambda>p. pi_problemId p = Some q) xs = Some p"
    "y = p\<lparr>pi_order := Some (int (lastIndexOf newOrder q) + 1)\<rparr>" by blast
  then show "y \<in> set (reordered xs newOrder)"
    by (force simp add: reordered_def)
qed

lemma ids_reordered:
  "map pi_problemId (reordered xs newOrder)
     = map Some (filter (\<lambda>q. Some q \<in> pi_problemId ` set xs) newOrder)"
proof -
  have "map pi_problemId (concat (map (\<lambda>q.
              case find (\<lambda>p. pi_problemId p = Some q) xs of
                None \<Rightarrow> []
              | Some p \<Rightarrow> [p\<lparr>pi_order := Some (int (lastIndexOf newOrder q) + 1)\<rparr>]) qs))
        = map Some (filter (\<lambda>q. Some q \<in> pi_problemId ` set xs) qs)" for qs
  proof (induction qs)
    case Nil
    then show ?case by simp
  next
    case (Cons q qs)
    show ?case
    proof (cases "find (\<lambda>p. pi_problemId p = Some q) xs")
      case None
      then have "Some q \<notin> pi_problemId ` set xs"
        by (auto simp add: find_None_iff)
      with None Cons.IH show ?thesis by simp
    next
      case (Some p)
      then have "pi_problemId p = Some q" and "p \<in> set xs"
        by (auto simp add: find_Some_iff)
      then have "Some q \<in> pi_problemId ` set xs" by force
      with Some Cons.IH \<open>pi_problemId p = Some q\<close> show ?thesis by simp
    qed
  qed
  then show ?thesis by (simp add: reordered_def)
qed

lemma find_distinct:
  assumes "distinct (map f xs)" and "p \<in> set xs"
  shows "find (\<lambda>x. f x = f p) xs = Some p"
  using assms by (induction xs) force+


text \<open>
  Claim C2, as amended. \<^verbatim>\<open>reorderProblems(newOrder)\<close> replaces
  \<^verbatim>\<open>problemInstances\<close> with, for each id of \<open>newOrder\<close> in turn, the first instance
  that has this \<^verbatim>\<open>problemId\<close>; an id with no such instance is skipped. So the ids of
  the result are the ids of \<open>newOrder\<close> that some instance has, in the order of
  \<open>newOrder\<close>; each element of the result is the first instance of its id, changed in
  \<^verbatim>\<open>order\<close> only; and its \<^verbatim>\<open>order\<close> is the 1-based position of the last
  occurrence of its id in \<open>newOrder\<close>, which is the position of the id when \<open>newOrder\<close>
  does not repeat it. When no two instances share a \<^verbatim>\<open>problemId\<close>, every instance
  whose id occurs in \<open>newOrder\<close> is in the result.
\<close>

theorem reorderProblems_result:
  "ps_problemInstances (doc (reorderProblems e d newOrder))
      = reordered (ps_problemInstances d) newOrder
   \<and> map pi_problemId (ps_problemInstances (doc (reorderProblems e d newOrder)))
      = map Some (filter (\<lambda>q. Some q \<in> pi_problemId ` set (ps_problemInstances d)) newOrder)
   \<and> (\<forall>y\<in>set (ps_problemInstances (doc (reorderProblems e d newOrder))).
        \<exists>p. find (\<lambda>p. pi_problemId p = pi_problemId y) (ps_problemInstances d) = Some p
            \<and> y = p\<lparr>pi_order := pi_order y\<rparr>)
   \<and> (\<forall>y\<in>set (ps_problemInstances (doc (reorderProblems e d newOrder))).
        \<exists>k<length newOrder.
            pi_problemId y = Some (newOrder ! k) \<and> pi_order y = Some (int k + 1)
            \<and> (\<forall>j<length newOrder. newOrder ! j = newOrder ! k \<longrightarrow> j \<le> k))
   \<and> (distinct (map pi_problemId (ps_problemInstances d)) \<longrightarrow>
        (\<forall>p\<in>set (ps_problemInstances d). \<forall>q\<in>set newOrder. pi_problemId p = Some q \<longrightarrow>
           (\<exists>y\<in>set (ps_problemInstances (doc (reorderProblems e d newOrder))).
               y = p\<lparr>pi_order := pi_order y\<rparr>)))"
proof -
  let ?xs = "ps_problemInstances d"
  let ?ys = "ps_problemInstances (doc (reorderProblems e d newOrder))"
  have eq: "?ys = reordered ?xs newOrder"
    by (rule reorderProblems_instances)
  have ids: "map pi_problemId ?ys
      = map Some (filter (\<lambda>q. Some q \<in> pi_problemId ` set ?xs) newOrder)"
    by (simp only: eq ids_reordered)
  have first: "\<exists>p. find (\<lambda>p. pi_problemId p = pi_problemId y) ?xs = Some p
            \<and> y = p\<lparr>pi_order := pi_order y\<rparr>" if "y \<in> set ?ys" for y
  proof -
    from that obtain q p where q: "q \<in> set newOrder"
      and p: "find (\<lambda>p. pi_problemId p = Some q) ?xs = Some p"
      and y: "y = p\<lparr>pi_order := Some (int (lastIndexOf newOrder q) + 1)\<rparr>"
      unfolding eq in_set_reordered by blast
    from p have "pi_problemId p = Some q" by (auto simp add: find_Some_iff)
    with y have "pi_problemId y = Some q" by simp
    with p y show ?thesis by simp
  qed
  have pos: "\<exists>k<length newOrder.
            pi_problemId y = Some (newOrder ! k) \<and> pi_order y = Some (int k + 1)
            \<and> (\<forall>j<length newOrder. newOrder ! j = newOrder ! k \<longrightarrow> j \<le> k)"
    if "y \<in> set ?ys" for y
  proof -
    from that obtain q p where q: "q \<in> set newOrder"
      and p: "find (\<lambda>p. pi_problemId p = Some q) ?xs = Some p"
      and y: "y = p\<lparr>pi_order := Some (int (lastIndexOf newOrder q) + 1)\<rparr>"
      unfolding eq in_set_reordered by blast
    from p have pq: "pi_problemId p = Some q" by (auto simp add: find_Some_iff)
    let ?k = "lastIndexOf newOrder q"
    from lastIndexOf_props [OF q]
    have "?k < length newOrder" "newOrder ! ?k = q"
      "\<forall>j<length newOrder. newOrder ! j = q \<longrightarrow> j \<le> ?k" by simp_all
    with y pq show ?thesis by (intro exI [of _ ?k]) simp
  qed
  have kept: "\<exists>y\<in>set ?ys. y = p\<lparr>pi_order := pi_order y\<rparr>"
    if dist: "distinct (map pi_problemId ?xs)" and p: "p \<in> set ?xs"
      and q: "q \<in> set newOrder" and pq: "pi_problemId p = Some q" for p q
  proof -
    have "find (\<lambda>x. pi_problemId x = Some q) ?xs = Some p"
      using find_distinct [OF dist p] pq by simp
    with q have "p\<lparr>pi_order := Some (int (lastIndexOf newOrder q) + 1)\<rparr> \<in> set ?ys"
      unfolding eq in_set_reordered by blast
    then show ?thesis
      by (intro bexI [of _ "p\<lparr>pi_order := Some (int (lastIndexOf newOrder q) + 1)\<rparr>"]) simp_all
  qed
  show ?thesis
    using eq ids first pos kept by blast
qed

theorem reorderProblems_result_witness:
  "distinct (map pi_problemId [sampleInstance ''a1'' 7 1, sampleInstance ''c3'' 9 3])
   \<and> ps_problemInstances (doc (reorderProblems sampleEnv
        (sampleSet\<lparr>ps_problemInstances := [sampleInstance ''a1'' 7 1, sampleInstance ''c3'' 9 3]\<rparr>)
        [9, 5, 7]))
      = [sampleInstance ''c3'' 9 1, sampleInstance ''a1'' 7 3]"
proof -
  have "reordered [sampleInstance ''a1'' 7 1, sampleInstance ''c3'' 9 3] [9, 5, 7]
          = [sampleInstance ''c3'' 9 1, sampleInstance ''a1'' 7 3]"
    by (simp add: reordered_def sampleInstance_def)
  then show ?thesis
    using reorderProblems_result [of sampleEnv
        "sampleSet\<lparr>ps_problemInstances := [sampleInstance ''a1'' 7 1, sampleInstance ''c3'' 9 3]\<rparr>"
        "[9, 5, 7]", THEN conjunct1]
    by (simp add: sampleInstance_def)
qed

text \<open>
  The claim as stated fails when two instances share a \<^verbatim>\<open>problemId\<close>: in the sample
  set the instance \<^verbatim>\<open>b2\<close> has the id \<open>7\<close>, which occurs in the order \<open>[9, 7]\<close>, and
  the result has the instances \<^verbatim>\<open>c3\<close> and \<^verbatim>\<open>a1\<close> only. And an id that
  \<open>newOrder\<close> repeats gives the same instance twice, with the later position.
\<close>

theorem reorderProblems_counterexample:
  "sampleInstance ''b2'' 7 2 \<in> set (ps_problemInstances sampleSet)
   \<and> pi_problemId (sampleInstance ''b2'' 7 2) = Some 7 \<and> 7 \<in> set [9, 7 :: int]
   \<and> ps_problemInstances (doc (reorderProblems sampleEnv sampleSet [9, 7]))
        = [sampleInstance ''c3'' 9 1, sampleInstance ''a1'' 7 2]
   \<and> ps_problemInstances (doc (reorderProblems sampleEnv sampleSet [9, 9]))
        = [sampleInstance ''c3'' 9 2, sampleInstance ''c3'' 9 2]"
  by (simp add: reorderProblems_def doc_save sampleSet_def sampleInstance_def)

section \<open>Problem sets: updating an instance\<close>





section \<open>Routes: resetting course progress\<close>

text \<open>
  Claim C8. The handler of \<^verbatim>\<open>POST /api/courses/:id/reset-progress\<close> answers 401 when
  the request has no user id (none, or the empty string); otherwise 403 when
  \<^verbatim>\<open>canUserAccessCourse\<close> returns false; otherwise the JSON body
  \<^verbatim>\<open>{ success: true }\<close> with status 200 when the reset completes; and 500 when
  \<^verbatim>\<open>canUserAccessCourse\<close> or \<^verbatim>\<open>resetUserCourseProgress\<close> throws.
\<close>

theorem resetProgress_status:
  "(\<not> truthy (userIdOf r) \<longrightarrow>
      resetProgressHandler st idParam r = \<lparr>status = 401, body = Json (Message ''Unauthorized'')\<rparr>)
   \<and> (\<forall>userId. userIdOf r = Some userId \<and> userId \<noteq> [] \<longrightarrow>
        (canUserAccessCourse st (parseInt idParam) userId
            (\<exists>u. req_user r = Some u \<and> user_role u = Some ''admin'') = Inr False \<longrightarrow>
         resetProgressHandler st idParam r
           = \<lparr>status = 403, body = Json (Message ''Access denied'')\<rparr>)
      \<and> (canUserAccessCourse st (parseInt idParam) userId
            (\<exists>u. req_user r = Some u \<and> user_role u = Some ''admin'') = Inr True
          \<and> resetUserCourseProgress st userId (parseInt idParam) = Inr () \<longrightarrow>
         resetProgressHandler st idParam r = \<lparr>status = 200, body = Json (Success True)\<rparr>)
      \<and> ((\<exists>t. canUserAccessCourse st (parseInt idParam) userId
                 (\<exists>u. req_user r = Some u \<and> user_role u = Some ''admin'') = Inl t)
          \<or> (canUserAccessCourse st (parseInt idParam) userId
                 (\<exists>u. req_user r = Some u \<and> user_role u = Some ''admin'') = Inr True
              \<and> (\<exists>t. resetUserCourseProgress st userId (parseInt idParam) = Inl t)) \<longrightarrow>
         resetProgressHandler st idParam r
           = \<lparr>status = 500, body = Json (Message ''Failed to reset course progress'')\<rparr>))"
proof -
  have admin: "(case req_user r of None \<Rightarrow> False | Some u \<Rightarrow> user_role u = Some ''admin'')
                 = (\<exists>u. req_user r = Some u \<and> user_role u = Some ''admin'')"
    by (cases "req_user r") simp_all
  show ?thesis
    unfolding resetProgressHandler_def Let_def admin
    by (auto simp add: truthy_def statusJson_def json_def split: sum.splits)
qed


theorem resetProgress_status_witness:
  "resetProgressHandler sampleStorage ''3'' ((sampleRequest POST ''/api/courses/3/reset-progress'')\<lparr>req_user := None\<rparr>)
      = \<lparr>status = 401, body = Json (Message ''Unauthorized'')\<rparr>
   \<and> resetProgressHandler sampleStorage ''4'' (sampleRequest POST ''/api/courses/4/reset-progress'')
      = \<lparr>status = 403, body = Json (Message ''Access denied'')\<rparr>
   \<and> resetProgressHandler sampleStorage ''3'' (sampleRequest POST ''/api/courses/3/reset-progress'')
      = \<lparr>status = 200, body = Json (Success True)\<rparr>
   \<and> resetProgressHandler sampleStorage ''5'' (sampleRequest POST ''/api/courses/5/reset-progress'')
      = \<lparr>status = 500, body = Json (Message ''Failed to reset course progress'')\<rparr>"
proof -
  have p3: "parseInt ''3'' = Some 3" and p4: "parseInt ''4'' = Some 4" and p5: "parseInt ''5'' = Some 5"
    by (simp_all add: parseInt_def isWhiteSpace_def isDigitOf_def digitValue_def digitsValue_def)
  have uid: "userIdOf (sampleRequest POST path) = Some ''u1''" for path
    by (simp add: userIdOf_def sampleRequest_def)
  have a: "resetProgressHandler sampleStorage ''3''
             ((sampleRequest POST ''/api/courses/3/reset-progress'')\<lparr>req_user := None\<rparr>)
      = \<lparr>status = 401, body = Json (Message ''Unauthorized'')\<rparr>"
    using resetProgress_status [of "(sampleRequest POST ''/api/courses/3/reset-progress'')\<lparr>req_user := None\<rparr>"
        sampleStorage "''3''", THEN conjunct1]
    by (simp add: truthy_def userIdOf_def)
  have b: "resetProgressHandler sampleStorage ''4'' (sampleRequest POST ''/api/courses/4/reset-progress'')
      = \<lparr>status = 403, body = Json (Message ''Access denied'')\<rparr>"
    using resetProgress_status [of "sampleRequest POST ''/api/courses/4/reset-progress''"
        sampleStorage "''4''", THEN conjunct2, rule_format, of "''u1''", THEN conjunct1]
    by (simp add: uid p4 sampleStorage_def)
  have c: "resetProgressHandler sampleStorage ''3'' (sampleRequest POST ''/api/courses/3/reset-progress'')
      = \<lparr>status = 200, body = Json (Success True)\<rparr>"
    using resetProgress_status [of "sampleRequest POST ''/api/courses/3/reset-progress''"
        sampleStorage "''3''", THEN conjunct2, rule_format, of "''u1''", THEN conjunct2, THEN conjunct1]
    by (simp add: uid p3 sampleStorage_def)
  have d: "resetProgressHandler sampleStorage ''5'' (sampleRequest POST ''/api/courses/5/reset-progress'')
      = \<lparr>status = 500, body = Json (Message ''Failed to reset course progress'')\<rparr>"
    using resetProgress_status [of "sampleRequest POST ''/api/courses/5/reset-progress''"
        sampleStorage "''5''", THEN conjunct2, rule_format, of "''u1''", THEN conjunct2, THEN conjunct2]
    by (simp add: uid p5 sampleStorage_def)
  show ?thesis
    using a b c d by (intro conjI)
qed

section \<open>Routes: deleting and patching an enrollment\<close>

text \<open>
  Claim C6, as amended. For \<^verbatim>\<open>DELETE\<close> and \<^verbatim>\<open>PATCH\<close> on
  \<^verbatim>\<open>/api/problem-set-enrollments/:enrollmentId\<close>: an \<^verbatim>\<open>enrollmentId\<close> from which
  \<^verbatim>\<open>parseInt\<close> reads no number yields 400. Otherwise, with \<open>n\<close> the number read:
  \<^verbatim>\<open>DELETE\<close> yields 200 and a JSON message when the storage deletes \<open>n\<close>, 404 when the
  storage throws an error whose message contains \<^verbatim>\<open>not found\<close>, and 500 when it
  throws anything else; \<^verbatim>\<open>PATCH\<close> yields 200 and the updated document when there is
  one, 404 when there is none, and 500 when the update throws.
\<close>

theorem enrollment_handlers_status:
  "(parseInt param = None \<longrightarrow>
      deleteEnrollmentHandler st param
        = \<lparr>status = 400, body = Json (Message ''Invalid enrollment id'')\<rparr>
      \<and> patchEnrollmentHandler db today param r
        = \<lparr>status = 400, body = Json (Message ''Invalid enrollment id'')\<rparr>)
   \<and> (\<forall>n. parseInt param = Some n \<longrightarrow>
        (deleteProblemSetEnrollment st n = Inr () \<longrightarrow>
           deleteEnrollmentHandler st param
             = \<lparr>status = 200, body = Json (Message ''Enrollment deleted'')\<rparr>)
      \<and> (\<forall>msg. deleteProblemSetEnrollment st n = Inl (Thrown (Some msg))
              \<and> includesStr msg ''not found'' \<longrightarrow>
           deleteEnrollmentHandler st param
             = \<lparr>status = 404, body = Json (Message ''Enrollment not found'')\<rparr>)
      \<and> (\<forall>m. deleteProblemSetEnrollment st n = Inl (Thrown m)
              \<and> (\<forall>msg. m = Some msg \<longrightarrow> \<not> includesStr msg ''not found'') \<longrightarrow>
           deleteEnrollmentHandler st param
             = \<lparr>status = 500, body = Json (Message ''Failed to delete enrollment'')\<rparr>)
      \<and> (\<forall>updated.
            findOneAndUpdate db n (setKey ''updatedAt'' (JDate today) (req_body r))
              = Inr (Some updated) \<longrightarrow>
           patchEnrollmentHandler db today param r
             = \<lparr>status = 200, body = Json (Document updated)\<rparr>)
      \<and> (findOneAndUpdate db n (setKey ''updatedAt'' (JDate today) (req_body r)) = Inr None \<longrightarrow>
           patchEnrollmentHandler db today param r
             = \<lparr>status = 404, body = Json (Message ''Enrollment not found'')\<rparr>)
      \<and> (\<forall>t. findOneAndUpdate db n (setKey ''updatedAt'' (JDate today) (req_body r)) = Inl t \<longrightarrow>
           patchEnrollmentHandler db today param r
             = \<lparr>status = 500, body = Json (Message ''Failed to update enrollment'')\<rparr>))"
proof -
  have empty: "\<not> includesStr [] ''not found''"
    by simp
  have del: "deleteEnrollmentHandler st param =
      (case parseInt param of
         None \<Rightarrow> \<lparr>status = 400, body = Json (Message ''Invalid enrollment id'')\<rparr>
       | Some n \<Rightarrow>
          (case deleteProblemSetEnrollment st n of
             Inr _ \<Rightarrow> \<lparr>status = 200, body = Json (Message ''Enrollment deleted'')\<rparr>
           | Inl (Thrown m) \<Rightarrow>
               if (\<exists>msg. m = Some msg \<and> includesStr msg ''not found'')
               then \<lparr>status = 404, body = Json (Message ''Enrollment not found'')\<rparr>
               else \<lparr>status = 500, body = Json (Message ''Failed to delete enrollment'')\<rparr>))"
    using empty
    by (auto simp add: deleteEnrollmentHandler_def statusJson_def json_def truthy_def
        split: option.splits sum.splits thrown.splits)
  have pat: "patchEnrollmentHandler db today param r =
      (case parseInt param of
         None \<Rightarrow> \<lparr>status = 400, body = Json (Message ''Invalid enrollment id'')\<rparr>
       | Some n \<Rightarrow>
          (case findOneAndUpdate db n (setKey ''updatedAt'' (JDate today) (req_body r)) of
             Inl t \<Rightarrow> \<lparr>status = 500, body = Json (Message ''Failed to update enrollment'')\<rparr>
           | Inr None \<Rightarrow> \<lparr>status = 404, body = Json (Message ''Enrollment not found'')\<rparr>
           | Inr (Some updated) \<Rightarrow> \<lparr>status = 200, body = Json (Document updated)\<rparr>))"
    by (simp add: patchEnrollmentHandler_def statusJson_def json_def Let_def
        split: option.splits sum.splits)
  show ?thesis
    unfolding del pat by (auto split: option.splits sum.splits thrown.splits)
qed

text \<open>
  The claim as stated fails on an \<^verbatim>\<open>enrollmentId\<close> that is not a number but starts
  with digits: \<^verbatim>\<open>12abc\<close> is read as \<open>12\<close>, and both handlers go on and answer 200.
\<close>

theorem enrollment_handlers_counterexample:
  "parseInt ''12abc'' = Some 12
   \<and> deleteEnrollmentHandler sampleStorage ''12abc''
       = \<lparr>status = 200, body = Json (Message ''Enrollment deleted'')\<rparr>
   \<and> patchEnrollmentHandler sampleDatabase 1000 ''12abc''
         (sampleRequest PATCH ''/api/problem-set-enrollments/12abc'')
       = \<lparr>status = 200,
          body = Json (Document (JObj [(''status'', JStr ''active''), (''updatedAt'', JDate 1000)]))\<rparr>"
proof -
  have p: "parseInt ''12abc'' = Some 12"
    by (simp add: parseInt_def isWhiteSpace_def isDigitOf_def digitValue_def digitsValue_def)
  show ?thesis
    by (simp add: p deleteEnrollmentHandler_def patchEnrollmentHandler_def sampleStorage_def
        sampleDatabase_def sampleRequest_def statusJson_def json_def)
qed


theorem enrollment_handlers_status_witness:
  "deleteEnrollmentHandler sampleStorage ''abc''
      = \<lparr>status = 400, body = Json (Message ''Invalid enrollment id'')\<rparr>
   \<and> deleteEnrollmentHandler sampleStorage ''12''
      = \<lparr>status = 200, body = Json (Message ''Enrollment deleted'')\<rparr>
   \<and> deleteEnrollmentHandler sampleStorage ''13''
      = \<lparr>status = 404, body = Json (Message ''Enrollment not found'')\<rparr>
   \<and> deleteEnrollmentHandler sampleStorage ''14''
      = \<lparr>status = 500, body = Json (Message ''Failed to delete enrollment'')\<rparr>
   \<and> patchEnrollmentHandler sampleDatabase 1000 ''12''
         (sampleRequest PATCH ''/api/problem-set-enrollments/12'')
      = \<lparr>status = 200,
         body = Json (Document (JObj [(''status'', JStr ''active''), (''updatedAt'', JDate 1000)]))\<rparr>
   \<and> patchEnrollmentHandler sampleDatabase 1000 ''13''
         (sampleRequest PATCH ''/api/problem-set-enrollments/13'')
      = \<lparr>status = 404, body = Json (Message ''Enrollment not found'')\<rparr>
   \<and> patchEnrollmentHandler sampleDatabase 1000 ''14''
         (sampleRequest PATCH ''/api/problem-set-enrollments/14'')
      = \<lparr>status = 500, body = Json (Message ''Failed to update enrollment'')\<rparr>"
proof -
  have pa: "parseInt ''abc'' = None" and p12: "parseInt ''12'' = Some 12"
    and p13: "parseInt ''13'' = Some 13" and p14: "parseInt ''14'' = Some 14"
    by (simp_all add: parseInt_def isWhiteSpace_def isDigitOf_def digitValue_def digitsValue_def)
  have nf: "includesStr ''Enrollment not found'' ''not found''"
    and lost: "\<not> includesStr ''connection lost'' ''not found''"
    by simp_all
  have a: "deleteEnrollmentHandler sampleStorage ''abc''
      = \<lparr>status = 400, body = Json (Message ''Invalid enrollment id'')\<rparr>"
    using enrollment_handlers_status [of "''abc''" sampleStorage, THEN conjunct1] pa by simp
  have b: "deleteEnrollmentHandler sampleStorage ''12''
      = \<lparr>status = 200, body = Json (Message ''Enrollment deleted'')\<rparr>"
    using enrollment_handlers_status [of "''12''" sampleStorage, THEN conjunct2, rule_format,
        OF p12, THEN conjunct1]
    by (simp add: sampleStorage_def)
  have c: "deleteEnrollmentHandler sampleStorage ''13''
      = \<lparr>status = 404, body = Json (Message ''Enrollment not found'')\<rparr>"
    using enrollment_handlers_status [of "''13''" sampleStorage, THEN conjunct2, rule_format,
        OF p13, THEN conjunct2, THEN conjunct1, rule_format, of "''Enrollment not found''"] nf
    by (simp add: sampleStorage_def)
  have d: "deleteEnrollmentHandler sampleStorage ''14''
      = \<lparr>status = 500, body = Json (Message ''Failed to delete enrollment'')\<rparr>"
    using enrollment_handlers_status [of "''14''" sampleStorage, THEN conjunct2, rule_format,
        OF p14, THEN conjunct2, THEN conjunct2, THEN conjunct1, rule_format,
        of "Some ''connection lost''"] lost
    by (simp add: sampleStorage_def)
  have e: "patchEnrollmentHandler sampleDatabase 1000 ''13''
         (sampleRequest PATCH ''/api/problem-set-enrollments/13'')
      = \<lparr>status = 404, body = Json (Message ''Enrollment not found'')\<rparr>"
    using enrollment_handlers_status [of "''13''" _ sampleDatabase 1000
        "sampleRequest PATCH ''/api/problem-set-enrollments/13''", THEN conjunct2, rule_format,
        OF p13, THEN conjunct2, THEN conjunct2, THEN conjunct2, THEN conjunct2, THEN conjunct1]
    by (simp add: sampleDatabase_def)
  have f: "patchEnrollmentHandler sampleDatabase 1000 ''14''
         (sampleRequest PATCH ''/api/problem-set-enrollments/14'')
      = \<lparr>status = 500, body = Json (Message ''Failed to update enrollment'')\<rparr>"
    using enrollment_handlers_status [of "''14''" _ sampleDatabase 1000
        "sampleRequest PATCH ''/api/problem-set-enrollments/14''", THEN conjunct2, rule_format,
        OF p14, THEN conjunct2, THEN conjunct2, THEN conjunct2, THEN conjunct2, THEN conjunct2,
        rule_format, of "Thrown None"]
    by (simp add: sampleDatabase_def)
  have g: "patchEnrollmentHandler sampleDatabase 1000 ''12''
         (sampleRequest PATCH ''/api/problem-set-enrollments/12'')
      = \<lparr>status = 200,
         body = Json (Document (JObj [(''status'', JStr ''active''), (''updatedAt'', JDate 1000)]))\<rparr>"
    using enrollment_handlers_status [of "''12''" _ sampleDatabase 1000
        "sampleRequest PATCH ''/api/problem-set-enrollments/12''", THEN conjunct2, rule_format,
        OF p12, THEN conjunct2, THEN conjunct2, THEN conjunct2, THEN conjunct1, rule_format,
        of "JObj [(''status'', JStr ''active''), (''updatedAt'', JDate 1000)]"]
    by (simp add: sampleDatabase_def sampleRequest_def)
  show ?thesis
    using a b c d g e f by (intro conjI)
qed

section \<open>Routes: the JSON 404 of the API\<close>







section \<open>Routes: problem sets with enrollment\<close>










end
